theory Spec2Isabelle
  imports Main "HOL-Library.Word"
begin

section \<open>Video modes of the primary output (Unix/VideoModeImpl.cpp)\<close>

text \<open>
  The two entry points \<open>getFullscreenModes\<close> and \<open>getDesktopMode\<close> query the X server
  through Xlib and XRandR. The embedding makes the server's answers an explicit argument
  (one field per Xlib call the code makes) and returns, next to the value the C++ function
  returns, the lines written to \<open>err()\<close> and the sequence of acquisitions and releases
  of native handles.
\<close>

subsection \<open>Data\<close>

type_synonym c_uint = "32 word"
type_synonym c_int = "32 word"

text \<open>\<open>RRMode\<close> is an XID (\<open>unsigned long\<close>), \<open>Rotation\<close> an \<open>unsigned short\<close>.\<close>

type_synonym RRMode = "64 word"
type_synonym Rotation = "16 word"

text \<open>The rotation constants of \<open>X11/extensions/randr.h\<close>.\<close>

definition RR_Rotate_0 :: Rotation where "RR_Rotate_0 = 1"
definition RR_Rotate_90 :: Rotation where "RR_Rotate_90 = 2"
definition RR_Rotate_180 :: Rotation where "RR_Rotate_180 = 4"
definition RR_Rotate_270 :: Rotation where "RR_Rotate_270 = 8"

record VideoMode =
  width :: c_uint
  height :: c_uint
  bitsPerPixel :: c_uint

text \<open>
  \<open>VideoMode(w, h, bpp)\<close>. Where the code passes an \<open>int\<close> depth, the conversion to
  \<open>unsigned int\<close> keeps the 32 bits, so both are the same word here.
  \<open>operator==\<close> on \<open>VideoMode\<close>, which \<open>std::find\<close> uses, is declared outside this
  file; the spec gives it as equality of all three fields, which is equality of the record.
\<close>

definition VideoMode_ctor :: "c_uint \<Rightarrow> c_uint \<Rightarrow> c_uint \<Rightarrow> VideoMode" where
  "VideoMode_ctor w h bpp = \<lparr>width = w, height = h, bitsPerPixel = bpp\<rparr>"

text \<open>
  Modelled from the spec: the default constructor \<open>VideoMode()\<close> lives in VideoMode.cpp;
  the spec calls its value the zero-valued VideoMode (all fields zero).
\<close>

definition VideoMode_default :: VideoMode where
  "VideoMode_default = \<lparr>width = 0, height = 0, bitsPerPixel = 0\<rparr>"

text \<open>The fields of \<open>XRRModeInfo\<close> the code reads: \<open>id\<close>, \<open>width\<close>, \<open>height\<close>.\<close>

record XRRModeInfo =
  mode_id :: RRMode
  mode_width :: c_uint
  mode_height :: c_uint

text \<open>
  \<open>XRRScreenConfiguration\<close> carries the current rotation, which
  \<open>XRRConfigRotations(config, &currentRotation)\<close> stores in its out-parameter.
  \<open>XRRScreenResources\<close> is read through \<open>modes[0 .. nmode-1]\<close> only, and so is
  \<open>XRROutputInfo\<close>: each is the list of these entries, \<open>nmode\<close> its length.
\<close>

record XRRScreenConfiguration =
  rotation :: Rotation

type_synonym XRRScreenResources = "XRRModeInfo list"
type_synonym XRROutputInfo = "RRMode list"

definition XRRConfigRotations :: "XRRScreenConfiguration \<Rightarrow> Rotation" where
  "XRRConfigRotations config = rotation config"

text \<open>
  What the X server answers to each call. A pointer result is \<open>None\<close> for \<open>NULL\<close>.
  \<open>XListDepths\<close> returns the array, \<open>nbDepths\<close> being its length.
\<close>

record xserver =
  OpenDisplay :: bool
  XQueryExtension :: bool
  XRRGetScreenInfo :: "XRRScreenConfiguration option"
  XRRGetScreenResources :: "XRRScreenResources option"
  XRRGetOutputInfo :: "XRROutputInfo option"
  XListDepths :: "c_int list option"
  DefaultDepth :: c_int

subsection \<open>Effects\<close>

datatype resource = Connection | Configuration | Resources | OutputInfo | DepthList

datatype event = Acquire resource | Release resource

record 'a outcome =
  result :: 'a
  diagnostics :: "string list"
  events :: "event list"

text \<open>A path that returns \<open>v\<close> without touching \<open>err()\<close> or any handle.\<close>

definition silent :: "'a \<Rightarrow> 'a outcome" where
  "silent v = \<lparr>result = v, diagnostics = [], events = []\<rparr>"

text \<open>A failure path: one line written to \<open>err()\<close>.\<close>

definition report :: "'a \<Rightarrow> string \<Rightarrow> 'a outcome" where
  "report v msg = \<lparr>result = v, diagnostics = [msg], events = []\<rparr>"

text \<open>
  The body of an \<open>if (handle) { ... free(handle); }\<close> block: the handle was acquired
  before the block is entered and is released as its last statement.
\<close>

definition held :: "resource \<Rightarrow> 'a outcome \<Rightarrow> 'a outcome" where
  "held r body = body\<lparr>events := [Acquire r] @ events body @ [Release r]\<rparr>"

subsection \<open>Rotation correction (lines 89-93 and 181-185)\<close>

text \<open>\<open>std::swap(mode.width, mode.height)\<close>\<close>

definition swap_width_height :: "VideoMode \<Rightarrow> VideoMode" where
  "swap_width_height mode = mode\<lparr>width := height mode, height := width mode\<rparr>"

text \<open>
  Both functions hold the same three statements: read the current rotation from the
  configuration, compare it with \<open>RR_Rotate_90\<close> and \<open>RR_Rotate_270\<close>, swap.
\<close>

definition correct_rotation :: "XRRScreenConfiguration \<Rightarrow> VideoMode \<Rightarrow> VideoMode" where
  "correct_rotation config mode =
     (let currentRotation = XRRConfigRotations config
      in if currentRotation = RR_Rotate_90 \<or> currentRotation = RR_Rotate_270
         then swap_width_height mode else mode)"

subsection \<open>getFullscreenModes\<close>

text \<open>
  Lines 84-98, the body of the innermost loop for one \<open>info = &res->modes[k]\<close>:
  on an identifier match the mode is built, rotated and appended unless
  \<open>std::find\<close> finds an equal element.
\<close>

definition match_mode ::
  "XRRScreenConfiguration \<Rightarrow> c_int \<Rightarrow> RRMode \<Rightarrow> XRRModeInfo \<Rightarrow> VideoMode list \<Rightarrow> VideoMode list"
where
  "match_mode config depth jmode info modes =
     (if jmode = mode_id info then
        (let mode = correct_rotation config
                      (VideoMode_ctor (mode_width info) (mode_height info) depth)
         in if mode \<notin> set modes then modes @ [mode] else modes)
      else modes)"

text \<open>The loop over \<open>k\<close> (lines 80-99), over \<open>j\<close> (76-100) and over \<open>i\<close> (74-101).\<close>

primrec scan_resources ::
  "XRRScreenConfiguration \<Rightarrow> c_int \<Rightarrow> RRMode \<Rightarrow> XRRModeInfo list \<Rightarrow> VideoMode list \<Rightarrow> VideoMode list"
where
  "scan_resources config depth jmode [] modes = modes"
| "scan_resources config depth jmode (info # rest) modes =
     scan_resources config depth jmode rest (match_mode config depth jmode info modes)"

primrec scan_output_modes ::
  "XRRScreenConfiguration \<Rightarrow> XRRScreenResources \<Rightarrow> c_int \<Rightarrow> RRMode list \<Rightarrow> VideoMode list \<Rightarrow> VideoMode list"
where
  "scan_output_modes config res depth [] modes = modes"
| "scan_output_modes config res depth (jmode # rest) modes =
     scan_output_modes config res depth rest (scan_resources config depth jmode res modes)"

primrec scan_depths ::
  "XRRScreenConfiguration \<Rightarrow> XRRScreenResources \<Rightarrow> XRROutputInfo \<Rightarrow> c_int list \<Rightarrow> VideoMode list \<Rightarrow> VideoMode list"
where
  "scan_depths config res output_info [] modes = modes"
| "scan_depths config res output_info (depth # rest) modes =
     scan_depths config res output_info rest
       (scan_output_modes config res depth output_info modes)"

text \<open>
  The function, block by block. The three outer tests have an \<open>else\<close> that writes to
  \<open>err()\<close>; the tests of \<open>res\<close>, \<open>output_info\<close> and \<open>depths\<close> have none. The
  depth array is freed inside \<open>if (depths && (nbDepths > 0))\<close> only.
\<close>

definition getFullscreenModes :: "xserver \<Rightarrow> VideoMode list outcome" where
  "getFullscreenModes X =
    (let modes = [] in
     if OpenDisplay X then
       held Connection
        (if XQueryExtension X then
           (case XRRGetScreenInfo X of
              Some config \<Rightarrow>
                held Configuration
                 (case XRRGetScreenResources X of
                    Some res \<Rightarrow>
                      held Resources
                       (case XRRGetOutputInfo X of
                          Some output_info \<Rightarrow>
                            held OutputInfo
                             (case XListDepths X of
                                Some depths \<Rightarrow>
                                  if 0 < length depths then
                                    held DepthList
                                      (silent (scan_depths config res output_info depths modes))
                                  else (silent modes)\<lparr>events := [Acquire DepthList]\<rparr>
                              | None \<Rightarrow> silent modes)
                        | None \<Rightarrow> silent modes)
                  | None \<Rightarrow> silent modes)
            | None \<Rightarrow>
                report modes
                  ''Failed to retrieve the screen configuration while trying to get the supported video modes'')
         else
           report modes
             ''Failed to use the XRandR extension while trying to get the supported video modes'')
     else
       report modes
         ''Failed to connect to the X server while trying to get the supported video modes'')"

subsection \<open>getDesktopMode\<close>

text \<open>
  \<open>output_info->modes[0]\<close> is read without a test of \<open>nmode\<close>. Reading an array
  is partial here: outside \<open>0 .. nmode-1\<close> there is no value, and the function has no
  defined behaviour from that point on.
\<close>

datatype fault = OutOfBoundsRead

definition array_read :: "'a list \<Rightarrow> nat \<Rightarrow> 'a option" where
  "array_read xs i = (if i < length xs then Some (xs ! i) else None)"

text \<open>
  Lines 173-187: the loop over the resource table. It has no \<open>break\<close>: every entry with
  the identifier overwrites \<open>desktopMode\<close>.
\<close>

primrec scan_desktop ::
  "XRRScreenConfiguration \<Rightarrow> c_int \<Rightarrow> RRMode \<Rightarrow> XRRModeInfo list \<Rightarrow> VideoMode \<Rightarrow> VideoMode"
where
  "scan_desktop config defaultDepth mode [] desktopMode = desktopMode"
| "scan_desktop config defaultDepth mode (info # rest) desktopMode =
     scan_desktop config defaultDepth mode rest
       (if mode = mode_id info then
          correct_rotation config
            (VideoMode_ctor (mode_width info) (mode_height info) defaultDepth)
        else desktopMode)"

text \<open>A block around a body that may have hit the undefined read.\<close>

definition held_or_fault ::
  "resource \<Rightarrow> fault + 'a outcome \<Rightarrow> fault + 'a outcome" where
  "held_or_fault r body = (case body of Inl f \<Rightarrow> Inl f | Inr b \<Rightarrow> Inr (held r b))"

definition getDesktopMode :: "xserver \<Rightarrow> fault + VideoMode outcome" where
  "getDesktopMode X =
    (let desktopMode = VideoMode_default in
     if OpenDisplay X then
       held_or_fault Connection
        (if XQueryExtension X then
           (case XRRGetScreenInfo X of
              Some config \<Rightarrow>
                held_or_fault Configuration
                 (case XRRGetScreenResources X of
                    Some res \<Rightarrow>
                      held_or_fault Resources
                       (case XRRGetOutputInfo X of
                          Some output_info \<Rightarrow>
                            held_or_fault OutputInfo
                             (case array_read output_info 0 of
                                None \<Rightarrow> Inl OutOfBoundsRead
                              | Some mode \<Rightarrow>
                                  Inr (silent
                                    (scan_desktop config (DefaultDepth X) mode res desktopMode)))
                        | None \<Rightarrow> Inr (silent desktopMode))
                  | None \<Rightarrow> Inr (silent desktopMode))
            | None \<Rightarrow>
                Inr (report desktopMode
                  ''Failed to retrieve the screen configuration while trying to get the desktop video modes''))
         else
           Inr (report desktopMode
             ''Failed to use the XRandR extension while trying to get the desktop video modes''))
     else
       Inr (report desktopMode
         ''Failed to connect to the X server while trying to get the desktop video modes''))"

subsection \<open>The properties' vocabulary\<close>

text \<open>
  The mode built from one descriptor and one depth, after rotation correction
  (lines 87-93; lines 179-185 with the default depth).
\<close>

definition candidate :: "XRRScreenConfiguration \<Rightarrow> XRRModeInfo \<Rightarrow> c_int \<Rightarrow> VideoMode" where
  "candidate config info depth =
     correct_rotation config (VideoMode_ctor (mode_width info) (mode_height info) depth)"

text \<open>
  The candidates in discovery order: depth-major, then the position in the output's mode
  list, then the position in the resource table, keeping the descriptors whose identifier
  is the output's.
\<close>

definition discovery ::
  "XRRScreenConfiguration \<Rightarrow> XRRScreenResources \<Rightarrow> XRROutputInfo \<Rightarrow> c_int list \<Rightarrow> VideoMode list"
where
  "discovery config res output_info depths =
     [candidate config info depth.
        depth \<leftarrow> depths, jmode \<leftarrow> output_info, info \<leftarrow> res, jmode = mode_id info]"

text \<open>
  Suppressing duplicates: the first occurrence stays where it is, every later equal
  element is dropped.
\<close>

primrec keep_first :: "'a list \<Rightarrow> 'a list" where
  "keep_first [] = []"
| "keep_first (x # xs) = x # removeAll x (keep_first xs)"

text \<open>Lines 96-97 on their own: \<open>push_back\<close> unless \<open>std::find\<close> succeeds.\<close>

definition append_new :: "'a \<Rightarrow> 'a list \<Rightarrow> 'a list" where
  "append_new x acc = (if x \<notin> set acc then acc @ [x] else acc)"

text \<open>The value \<open>getDesktopMode\<close> returns, when it returns.\<close>

definition returned :: "fault + 'a outcome \<Rightarrow> 'a option" where
  "returned r = (case r of Inl f \<Rightarrow> None | Inr out \<Rightarrow> Some (result out))"

text \<open>
  The descriptor the loop of \<open>getDesktopMode\<close> ends with: the loop does not stop at a
  match, so of several entries with the identifier the one latest in the table counts.
\<close>

definition last_match :: "RRMode \<Rightarrow> XRRScreenResources \<Rightarrow> XRRModeInfo option" where
  "last_match mode res = List.find (\<lambda>info. mode = mode_id info) (rev res)"

text \<open>
  The rotation rule in the specification's words: width and height change places for a
  quarter and a three-quarter turn and stay for every other rotation.
\<close>

definition expected_mode :: "Rotation \<Rightarrow> c_uint \<Rightarrow> c_uint \<Rightarrow> c_uint \<Rightarrow> VideoMode" where
  "expected_mode r w h bpp =
     (if r = RR_Rotate_90 \<or> r = RR_Rotate_270
      then \<lparr>width = h, height = w, bitsPerPixel = bpp\<rparr>
      else \<lparr>width = w, height = h, bitsPerPixel = bpp\<rparr>)"




subsection \<open>Example servers\<close>

text \<open>A server on which every call succeeds.\<close>

definition responsive_server ::
  "Rotation \<Rightarrow> XRRScreenResources \<Rightarrow> XRROutputInfo \<Rightarrow> c_int list \<Rightarrow> c_int \<Rightarrow> xserver" where
  "responsive_server r res output_info depths defaultDepth =
     \<lparr>OpenDisplay = True, XQueryExtension = True,
      XRRGetScreenInfo = Some \<lparr>rotation = r\<rparr>,
      XRRGetScreenResources = Some res,
      XRRGetOutputInfo = Some output_info,
      XListDepths = Some depths,
      DefaultDepth = defaultDepth\<rparr>"

text \<open>Scenarios A to C and E of the specification, and a table with two identifiers of one size.\<close>

definition scenario_A :: xserver where
  "scenario_A = responsive_server RR_Rotate_0
     [\<lparr>mode_id = 1, mode_width = 1920, mode_height = 1080\<rparr>] [1] [24] 24"

definition scenario_B :: xserver where
  "scenario_B = responsive_server RR_Rotate_90
     [\<lparr>mode_id = 1, mode_width = 1920, mode_height = 1080\<rparr>] [1] [24] 24"

definition scenario_C :: xserver where
  "scenario_C = responsive_server RR_Rotate_0
     [\<lparr>mode_id = 1, mode_width = 1920, mode_height = 1080\<rparr>] [1] [24, 32] 24"

definition scenario_E :: xserver where
  "scenario_E = responsive_server RR_Rotate_180
     [\<lparr>mode_id = 7, mode_width = 1280, mode_height = 720\<rparr>] [7, 9] [24] 24"

text \<open>Scenario E with the screen at a three-quarter turn.\<close>

definition scenario_E_270 :: xserver where
  "scenario_E_270 = responsive_server RR_Rotate_270
     [\<lparr>mode_id = 7, mode_width = 1280, mode_height = 720\<rparr>] [7, 9] [24] 24"

definition scenario_twins :: xserver where
  "scenario_twins = responsive_server RR_Rotate_90
     [\<lparr>mode_id = 1, mode_width = 1920, mode_height = 1080\<rparr>,
      \<lparr>mode_id = 2, mode_width = 1920, mode_height = 1080\<rparr>] [1, 2] [24, 24] 24"

section \<open>Auxiliary facts\<close>

lemma fold_append_new:
  "fold append_new xs acc = acc @ filter (\<lambda>y. y \<notin> set acc) (keep_first xs)"
proof (induction xs arbitrary: acc)
  case Nil
  show ?case by simp
next
  case (Cons x xs)
  show ?case
  proof (cases "x \<in> set acc")
    case True
    then have "filter (\<lambda>y. y \<notin> set acc) (removeAll x (keep_first xs))
             = filter (\<lambda>y. y \<notin> set acc) (keep_first xs)"
      by (auto simp: removeAll_filter_not_eq intro: filter_cong)
    with True Cons.IH [of acc] show ?thesis by (simp add: append_new_def)
  next
    case False
    have "filter (\<lambda>y. y \<notin> set (acc @ [x])) (keep_first xs)
        = filter (\<lambda>y. y \<notin> set acc) (removeAll x (keep_first xs))"
      by (auto simp: removeAll_filter_not_eq intro: filter_cong)
    with False Cons.IH [of "acc @ [x]"] show ?thesis by (simp add: append_new_def)
  qed
qed

lemma fold_append_new_Nil: "fold append_new xs [] = keep_first xs"
  by (simp add: fold_append_new)

lemma scan_resources_fold:
  "scan_resources config depth jmode res modes =
     fold append_new [candidate config info depth. info \<leftarrow> res, jmode = mode_id info] modes"
  by (induction res arbitrary: modes)
     (simp_all add: match_mode_def append_new_def candidate_def Let_def)

lemma scan_output_modes_fold:
  "scan_output_modes config res depth output_info modes =
     fold append_new
       [candidate config info depth. jmode \<leftarrow> output_info, info \<leftarrow> res, jmode = mode_id info]
       modes"
  by (induction output_info arbitrary: modes) (simp_all add: scan_resources_fold)

lemma scan_depths_fold:
  "scan_depths config res output_info depths modes =
     fold append_new (discovery config res output_info depths) modes"
  by (induction depths arbitrary: modes)
     (simp_all add: scan_output_modes_fold discovery_def)

lemma scan_depths_keep_first:
  "scan_depths config res output_info depths [] =
     keep_first (discovery config res output_info depths)"
  by (simp add: scan_depths_fold fold_append_new_Nil)

lemma set_keep_first: "set (keep_first xs) = set xs"
  by (induction xs) auto

lemma distinct_keep_first: "distinct (keep_first xs)"
  by (induction xs) (simp_all add: distinct_removeAll)

lemma result_held: "result (held r body) = result body"
  by (simp add: held_def)

lemma getFullscreenModes_result:
  assumes "OpenDisplay X" "XQueryExtension X" "XRRGetScreenInfo X = Some config"
    "XRRGetScreenResources X = Some res" "XRRGetOutputInfo X = Some output_info"
    "XListDepths X = Some depths"
  shows "result (getFullscreenModes X) = keep_first (discovery config res output_info depths)"
  using assms
  by (cases depths) (simp_all add: getFullscreenModes_def result_held silent_def scan_depths_keep_first discovery_def del: scan_depths.simps)


lemma returned_held_or_fault: "returned (held_or_fault r body) = returned body"
  by (simp add: returned_def held_or_fault_def result_held split: sum.split)

lemma returned_Inr: "returned (Inr out) = Some (result out)"
  by (simp add: returned_def)

lemma find_append_last:
  "List.find P (xs @ [x]) = (case List.find P xs of None \<Rightarrow> (if P x then Some x else None) | Some y \<Rightarrow> Some y)"
  by (induction xs) simp_all

lemma scan_desktop_last_match:
  "scan_desktop config defaultDepth mode res desktopMode =
     (case last_match mode res of
        None \<Rightarrow> desktopMode
      | Some info \<Rightarrow> candidate config info defaultDepth)"
proof (induction res arbitrary: desktopMode)
  case Nil
  show ?case by (simp add: last_match_def)
next
  case (Cons info rest)
  show ?case
    by (simp add: Cons.IH last_match_def find_append_last candidate_def split: option.splits)
qed

lemma count_list_distinct_member:
  "distinct xs \<Longrightarrow> x \<in> set xs \<Longrightarrow> count_list xs x = 1"
  by (induction xs) (auto simp: count_list_0_iff)

lemma candidate_expected:
  "candidate config info depth =
     expected_mode (rotation config) (mode_width info) (mode_height info) depth"
  by (simp add: candidate_def correct_rotation_def XRRConfigRotations_def expected_mode_def
      swap_width_height_def VideoMode_ctor_def)

lemma getDesktopMode_returned:
  assumes "OpenDisplay X" "XQueryExtension X" "XRRGetScreenInfo X = Some config"
    "XRRGetScreenResources X = Some res" "XRRGetOutputInfo X = Some (mode # rest)"
  shows "getDesktopMode X =
     Inr (held Connection (held Configuration (held Resources (held OutputInfo
       (silent (case last_match mode res of
                  None \<Rightarrow> VideoMode_default
                | Some info \<Rightarrow> candidate config info (DefaultDepth X)))))))"
  using assms
  by (simp add: getDesktopMode_def held_or_fault_def array_read_def scan_desktop_last_match)

section \<open>The claims\<close>

text \<open>
  C1. When every acquisition step succeeds, each depth \<open>D\<close> of the depth list and each
  identifier \<open>M\<close> of the output's mode list that matches a descriptor of the resource
  table give a mode (descriptor width, descriptor height, \<open>D\<close>), rotation corrected,
  that occurs exactly once in the sequence \<open>getFullscreenModes\<close> returns; and no two
  elements of that sequence are equal.
\<close>

theorem fullscreen_modes_each_candidate_once:
  assumes "OpenDisplay X" "XQueryExtension X" "XRRGetScreenInfo X = Some config"
    "XRRGetScreenResources X = Some res" "XRRGetOutputInfo X = Some output_info"
    "XListDepths X = Some depths"
    and "D \<in> set depths" "M \<in> set output_info" "descriptor \<in> set res"
    "mode_id descriptor = M"
  shows "count_list (result (getFullscreenModes X))
           (correct_rotation config
              (VideoMode_ctor (mode_width descriptor) (mode_height descriptor) D)) = 1
         \<and> distinct (result (getFullscreenModes X))"
proof -
  let ?ms = "result (getFullscreenModes X)"
  have eq: "?ms = keep_first (discovery config res output_info depths)"
    using assms(1-6) by (rule getFullscreenModes_result)
  have d: "distinct ?ms" by (simp add: eq distinct_keep_first)
  have "candidate config descriptor D \<in> set (discovery config res output_info depths)"
    using assms(7-10) by (auto simp: discovery_def)
  then have "candidate config descriptor D \<in> set ?ms"
    by (simp add: eq set_keep_first)
  with d show ?thesis
    by (simp add: count_list_distinct_member candidate_def)
qed

text \<open>
  On \<open>scenario_twins\<close> the mode (1080, 1920, 24) is produced four times (two equal
  depths, two identifiers of one size) and is returned once.
\<close>

theorem fullscreen_modes_each_candidate_once_witness:
  "count_list (result (getFullscreenModes scenario_twins))
     \<lparr>width = 1080, height = 1920, bitsPerPixel = 24\<rparr> = 1
   \<and> distinct (result (getFullscreenModes scenario_twins))"
  using fullscreen_modes_each_candidate_once
    [of scenario_twins "\<lparr>rotation = RR_Rotate_90\<rparr>"
        "[\<lparr>mode_id = 1, mode_width = 1920, mode_height = 1080\<rparr>,
          \<lparr>mode_id = 2, mode_width = 1920, mode_height = 1080\<rparr>]"
        "[1, 2]" "[24, 24]" 24 2
        "\<lparr>mode_id = 2, mode_width = 1920, mode_height = 1080\<rparr>"]
  by (simp add: scenario_twins_def responsive_server_def correct_rotation_def
      XRRConfigRotations_def swap_width_height_def VideoMode_ctor_def)

text \<open>
  C2. In both functions the mode built from a descriptor has width and height exchanged
  if and only if the current rotation is \<open>RR_Rotate_90\<close> or \<open>RR_Rotate_270\<close>: the
  modes \<open>getFullscreenModes\<close> collects and the mode \<open>getDesktopMode\<close> returns are the
  ones \<open>expected_mode\<close> gives, which for \<open>RR_Rotate_0\<close> and \<open>RR_Rotate_180\<close> keeps
  (width, height) and for \<open>RR_Rotate_90\<close> and \<open>RR_Rotate_270\<close> exchanges them.
\<close>

theorem rotation_swaps_width_height:
  assumes "OpenDisplay X" "XQueryExtension X" "XRRGetScreenInfo X = Some config"
    "XRRGetScreenResources X = Some res" "XRRGetOutputInfo X = Some output_info"
    "XListDepths X = Some depths"
  shows "result (getFullscreenModes X) =
           keep_first
             [expected_mode (rotation config) (mode_width info) (mode_height info) depth.
                depth \<leftarrow> depths, jmode \<leftarrow> output_info, info \<leftarrow> res, jmode = mode_id info]
         \<and> (case output_info of
               [] \<Rightarrow> True
             | mode # rest \<Rightarrow>
                 returned (getDesktopMode X) =
                   Some (case last_match mode res of
                           None \<Rightarrow> VideoMode_default
                         | Some info \<Rightarrow>
                             expected_mode (rotation config) (mode_width info)
                               (mode_height info) (DefaultDepth X)))
         \<and> expected_mode RR_Rotate_0 w h b = \<lparr>width = w, height = h, bitsPerPixel = b\<rparr>
         \<and> expected_mode RR_Rotate_180 w h b = \<lparr>width = w, height = h, bitsPerPixel = b\<rparr>
         \<and> expected_mode RR_Rotate_90 w h b = \<lparr>width = h, height = w, bitsPerPixel = b\<rparr>
         \<and> expected_mode RR_Rotate_270 w h b = \<lparr>width = h, height = w, bitsPerPixel = b\<rparr>"
proof -
  have full: "result (getFullscreenModes X) =
           keep_first
             [expected_mode (rotation config) (mode_width info) (mode_height info) depth.
                depth \<leftarrow> depths, jmode \<leftarrow> output_info, info \<leftarrow> res, jmode = mode_id info]"
    using getFullscreenModes_result [OF assms]
    unfolding discovery_def candidate_expected .
  have desk: "returned (getDesktopMode X) =
                   Some (case last_match mode res of
                           None \<Rightarrow> VideoMode_default
                         | Some info \<Rightarrow>
                             expected_mode (rotation config) (mode_width info)
                               (mode_height info) (DefaultDepth X))"
    if "output_info = mode # rest" for mode rest
    using getDesktopMode_returned [OF assms(1-4), of mode rest] assms(5) that
    by (simp add: returned_def result_held silent_def candidate_expected split: option.split)
  have vals: "expected_mode RR_Rotate_0 w h b = \<lparr>width = w, height = h, bitsPerPixel = b\<rparr>"
    "expected_mode RR_Rotate_180 w h b = \<lparr>width = w, height = h, bitsPerPixel = b\<rparr>"
    "expected_mode RR_Rotate_90 w h b = \<lparr>width = h, height = w, bitsPerPixel = b\<rparr>"
    "expected_mode RR_Rotate_270 w h b = \<lparr>width = h, height = w, bitsPerPixel = b\<rparr>"
    by (simp_all add: expected_mode_def RR_Rotate_0_def RR_Rotate_90_def RR_Rotate_180_def
        RR_Rotate_270_def)
  from full desk vals show ?thesis
    by (simp split: list.split)
qed

text \<open>Scenario B: a quarter turn makes (1920, 1080) into (1080, 1920) in both functions.\<close>

theorem rotation_swaps_width_height_witness:
  "result (getFullscreenModes scenario_B) = [\<lparr>width = 1080, height = 1920, bitsPerPixel = 24\<rparr>]
   \<and> returned (getDesktopMode scenario_B) =
       Some \<lparr>width = 1080, height = 1920, bitsPerPixel = 24\<rparr>"
  using rotation_swaps_width_height
    [of scenario_B "\<lparr>rotation = RR_Rotate_90\<rparr>"
        "[\<lparr>mode_id = 1, mode_width = 1920, mode_height = 1080\<rparr>]" "[1]" "[24]"]
  by (simp add: scenario_B_def responsive_server_def expected_mode_def last_match_def)

text \<open>
  C3. \<open>getFullscreenModes\<close> is a total function into sequences of modes, so no error
  signal reaches the caller; and it returns the empty sequence whenever the connection
  fails, the extension is absent, or the fetch of the screen configuration, of the
  resource table, of the output descriptor or of the depth list fails (for the depth list:
  a null array or a count of zero).
\<close>

theorem getFullscreenModes_failure_returns_empty:
  assumes "\<not> OpenDisplay X \<or> \<not> XQueryExtension X \<or> XRRGetScreenInfo X = None
    \<or> XRRGetScreenResources X = None \<or> XRRGetOutputInfo X = None
    \<or> XListDepths X = None \<or> XListDepths X = Some []"
  shows "result (getFullscreenModes X) = []"
  using assms
  by (auto simp: getFullscreenModes_def result_held silent_def report_def
      split: option.splits)

theorem getFullscreenModes_failure_returns_empty_witness:
  "XRRGetOutputInfo (scenario_C\<lparr>XRRGetOutputInfo := None\<rparr>) = None
   \<and> result (getFullscreenModes (scenario_C\<lparr>XRRGetOutputInfo := None\<rparr>)) = []"
  using getFullscreenModes_failure_returns_empty [of "scenario_C\<lparr>XRRGetOutputInfo := None\<rparr>"]
  by simp

text \<open>
  C4. Whenever the connection cannot be opened, the extension is absent, or the fetch of
  the screen configuration, of the resource table or of the output descriptor fails,
  \<open>getDesktopMode\<close> returns, and what it returns is the mode with width, height and
  bits per pixel all zero.
\<close>

theorem getDesktopMode_failure_returns_zero:
  assumes "\<not> OpenDisplay X \<or> \<not> XQueryExtension X \<or> XRRGetScreenInfo X = None
    \<or> XRRGetScreenResources X = None \<or> XRRGetOutputInfo X = None"
  shows "returned (getDesktopMode X) = Some \<lparr>width = 0, height = 0, bitsPerPixel = 0\<rparr>"
  using assms
  by (auto simp: getDesktopMode_def Let_def returned_held_or_fault returned_Inr silent_def
      report_def VideoMode_default_def split: option.splits)

theorem getDesktopMode_failure_returns_zero_witness:
  "\<not> XQueryExtension (scenario_E\<lparr>XQueryExtension := False\<rparr>)
   \<and> returned (getDesktopMode (scenario_E\<lparr>XQueryExtension := False\<rparr>)) =
       Some \<lparr>width = 0, height = 0, bitsPerPixel = 0\<rparr>"
  using getDesktopMode_failure_returns_zero [of "scenario_E\<lparr>XQueryExtension := False\<rparr>"]
  by simp

text \<open>
  C5. The claim asks for exactly one diagnostic line for every failing fetch step of
  \<open>getFullscreenModes\<close>. A failing fetch of the screen configuration writes its line;
  a failing fetch of the resource table, of the output descriptor or of the depth list,
  everything before it succeeding, returns the empty sequence and writes no line.
\<close>

theorem getFullscreenModes_fetch_failures_silent:
  "getFullscreenModes (scenario_C\<lparr>XRRGetScreenInfo := None\<rparr>) =
     \<lparr>result = [],
      diagnostics =
        [''Failed to retrieve the screen configuration while trying to get the supported video modes''],
      events = [Acquire Connection, Release Connection]\<rparr>
   \<and> getFullscreenModes (scenario_C\<lparr>XRRGetScreenResources := None\<rparr>) =
     \<lparr>result = [], diagnostics = [],
      events = [Acquire Connection, Acquire Configuration,
                Release Configuration, Release Connection]\<rparr>
   \<and> getFullscreenModes (scenario_C\<lparr>XRRGetOutputInfo := None\<rparr>) =
     \<lparr>result = [], diagnostics = [],
      events = [Acquire Connection, Acquire Configuration, Acquire Resources,
                Release Resources, Release Configuration, Release Connection]\<rparr>
   \<and> getFullscreenModes (scenario_C\<lparr>XListDepths := None\<rparr>) =
     \<lparr>result = [], diagnostics = [],
      events = [Acquire Connection, Acquire Configuration, Acquire Resources,
                Acquire OutputInfo, Release OutputInfo, Release Resources,
                Release Configuration, Release Connection]\<rparr>"
  by (simp add: getFullscreenModes_def scenario_C_def responsive_server_def held_def
      silent_def report_def)

text \<open>
  C6. When every acquisition step succeeds and the output's mode list is not empty,
  \<open>getDesktopMode\<close> returns the mode built from the table entry whose identifier is the
  one at position zero of that list: its bits per pixel are the screen's default depth,
  and its width and height are the entry's, exchanged when the current rotation is
  \<open>RR_Rotate_90\<close> or \<open>RR_Rotate_270\<close> and as they are otherwise. The depth list plays
  no part in it.
\<close>

theorem getDesktopMode_selects_first_mode:
  assumes "OpenDisplay X" "XQueryExtension X" "XRRGetScreenInfo X = Some config"
    "XRRGetScreenResources X = Some res" "XRRGetOutputInfo X = Some (mode # rest)"
  shows "returned (getDesktopMode X) =
           Some (case last_match mode res of
                   None \<Rightarrow> VideoMode_default
                 | Some info \<Rightarrow>
                     (if rotation config = RR_Rotate_90 \<or> rotation config = RR_Rotate_270
                      then \<lparr>width = mode_height info, height = mode_width info,
                            bitsPerPixel = DefaultDepth X\<rparr>
                      else \<lparr>width = mode_width info, height = mode_height info,
                            bitsPerPixel = DefaultDepth X\<rparr>))
         \<and> getDesktopMode (X\<lparr>XListDepths := depths\<rparr>) = getDesktopMode X"
proof -
  have "returned (getDesktopMode X) =
           Some (case last_match mode res of
                   None \<Rightarrow> VideoMode_default
                 | Some info \<Rightarrow> candidate config info (DefaultDepth X))"
    using getDesktopMode_returned [OF assms]
    by (simp add: returned_def result_held silent_def)
  moreover have "getDesktopMode (X\<lparr>XListDepths := depths\<rparr>) = getDesktopMode X"
    by (simp add: getDesktopMode_def cong: if_cong option.case_cong)
  ultimately show ?thesis
    by (simp add: candidate_expected expected_mode_def split: option.split)
qed

text \<open>
  Scenario E: modes [7, 9], table {7: (1280, 720)}, default depth 24. At a half turn the
  result is (1280, 720, 24); at a three-quarter turn it is (720, 1280, 24).
\<close>

theorem getDesktopMode_selects_first_mode_witness:
  "returned (getDesktopMode scenario_E) =
     Some \<lparr>width = 1280, height = 720, bitsPerPixel = 24\<rparr>
   \<and> returned (getDesktopMode scenario_E_270) =
     Some \<lparr>width = 720, height = 1280, bitsPerPixel = 24\<rparr>"
  using getDesktopMode_selects_first_mode
    [of scenario_E "\<lparr>rotation = RR_Rotate_180\<rparr>"
        "[\<lparr>mode_id = 7, mode_width = 1280, mode_height = 720\<rparr>]" 7 "[9]"]
    getDesktopMode_selects_first_mode
    [of scenario_E_270 "\<lparr>rotation = RR_Rotate_270\<rparr>"
        "[\<lparr>mode_id = 7, mode_width = 1280, mode_height = 720\<rparr>]" 7 "[9]"]
  by (simp add: scenario_E_def scenario_E_270_def responsive_server_def last_match_def
      RR_Rotate_90_def RR_Rotate_180_def RR_Rotate_270_def)

text \<open>
  C7. When every acquisition step succeeds, the sequence \<open>getFullscreenModes\<close> returns
  is the sequence of candidates in discovery order (depth-major, then the position in the
  output's mode list, then the position in the resource table) with every element that
  equals an earlier one dropped.
\<close>

theorem fullscreen_modes_discovery_order:
  assumes "OpenDisplay X" "XQueryExtension X" "XRRGetScreenInfo X = Some config"
    "XRRGetScreenResources X = Some res" "XRRGetOutputInfo X = Some output_info"
    "XListDepths X = Some depths"
  shows "result (getFullscreenModes X) = keep_first (discovery config res output_info depths)"
  using assms by (rule getFullscreenModes_result)

text \<open>Scenario C: depths [24, 32] and one output mode of size (1920, 1080).\<close>

theorem fullscreen_modes_discovery_order_witness:
  "result (getFullscreenModes scenario_C) =
     [\<lparr>width = 1920, height = 1080, bitsPerPixel = 24\<rparr>,
      \<lparr>width = 1920, height = 1080, bitsPerPixel = 32\<rparr>]"
  using fullscreen_modes_discovery_order
    [of scenario_C "\<lparr>rotation = RR_Rotate_0\<rparr>"
        "[\<lparr>mode_id = 1, mode_width = 1920, mode_height = 1080\<rparr>]" "[1]" "[24, 32]"]
  by (simp add: scenario_C_def responsive_server_def discovery_def candidate_def
      correct_rotation_def XRRConfigRotations_def VideoMode_ctor_def RR_Rotate_0_def
      RR_Rotate_90_def RR_Rotate_270_def)

text \<open>
  C8. \<open>getDesktopMode\<close> reads position zero of the output's mode list without a test.
  With the read returning an option, the function ends in the fault of that read exactly
  when every acquisition step succeeds and the mode list is empty.
\<close>

theorem getDesktopMode_empty_mode_list_fault:
  assumes "OpenDisplay X" "XQueryExtension X" "XRRGetScreenInfo X = Some config"
    "XRRGetScreenResources X = Some res" "XRRGetOutputInfo X = Some output_info"
  shows "getDesktopMode X = Inl OutOfBoundsRead \<longleftrightarrow> output_info = []"
  using assms
  by (cases output_info) (simp_all add: getDesktopMode_def held_or_fault_def array_read_def)

theorem getDesktopMode_empty_mode_list_fault_witness:
  "getDesktopMode (scenario_E\<lparr>XRRGetOutputInfo := Some []\<rparr>) = Inl OutOfBoundsRead"
  using getDesktopMode_empty_mode_list_fault
    [of "scenario_E\<lparr>XRRGetOutputInfo := Some []\<rparr>" "\<lparr>rotation = RR_Rotate_180\<rparr>"
        "[\<lparr>mode_id = 7, mode_width = 1280, mode_height = 720\<rparr>]" "[]"]
  by (simp add: scenario_E_def responsive_server_def)




text \<open>
  C10. When every acquisition step succeeds and the identifier at position zero of the
  output's mode list is the identifier of no entry of the resource table,
  \<open>getDesktopMode\<close> returns the zero-valued mode and writes no diagnostic line.
\<close>

theorem getDesktopMode_unmatched_mode_silent:
  assumes "OpenDisplay X" "XQueryExtension X" "XRRGetScreenInfo X = Some config"
    "XRRGetScreenResources X = Some res" "XRRGetOutputInfo X = Some (mode # rest)"
    and "\<forall>info \<in> set res. mode_id info \<noteq> mode"
  shows "getDesktopMode X =
     Inr \<lparr>result = \<lparr>width = 0, height = 0, bitsPerPixel = 0\<rparr>, diagnostics = [],
          events = [Acquire Connection, Acquire Configuration, Acquire Resources,
                    Acquire OutputInfo, Release OutputInfo, Release Resources,
                    Release Configuration, Release Connection]\<rparr>"
proof -
  have "last_match mode res = None"
    using assms(6) by (auto simp: last_match_def find_None_iff)
  with getDesktopMode_returned [OF assms(1-5)] show ?thesis
    by (simp add: held_def silent_def VideoMode_default_def)
qed

theorem getDesktopMode_unmatched_mode_silent_witness:
  "getDesktopMode (scenario_E\<lparr>XRRGetOutputInfo := Some [9, 7]\<rparr>) =
     Inr \<lparr>result = \<lparr>width = 0, height = 0, bitsPerPixel = 0\<rparr>, diagnostics = [],
          events = [Acquire Connection, Acquire Configuration, Acquire Resources,
                    Acquire OutputInfo, Release OutputInfo, Release Resources,
                    Release Configuration, Release Connection]\<rparr>"
  using getDesktopMode_unmatched_mode_silent
    [of "scenario_E\<lparr>XRRGetOutputInfo := Some [9, 7]\<rparr>" "\<lparr>rotation = RR_Rotate_180\<rparr>"
        "[\<lparr>mode_id = 7, mode_width = 1280, mode_height = 720\<rparr>]" 9 "[7]"]
  by (simp add: scenario_E_def responsive_server_def)

end
